theory Spec2Isabelle
  imports Main "HOL-Library.Word"
begin

unbundle bit_operations_syntax

section \<open>Machine types and constants of the XDP environment\<close>

type_synonym u8 = "8 word"
type_synonym u16 = "16 word"
type_synonym u32 = "32 word"

text \<open>
  The return codes of an XDP program (\<^verbatim>\<open>enum xdp_action\<close> of \<^verbatim>\<open>linux/bpf.h\<close>).
  \<^verbatim>\<open>xdp_filter_prog\<close> names two of them, \<^verbatim>\<open>XDP_PASS\<close> (the spec's DefaultPath) and
  \<^verbatim>\<open>XDP_REDIRECT\<close> (the spec's RedirectedPath); the environment accepts the other
  three as well, so that a run ends in one of the two is a property of the program and
  not of its result type.
\<close>

datatype xdp_action = XDP_ABORTED | XDP_DROP | XDP_PASS | XDP_TX | XDP_REDIRECT

text \<open>
  The byte order of the machine the program is compiled for. \<^verbatim>\<open>bpf_htons\<close> and
  \<^verbatim>\<open>bpf_ntohs\<close> (\<^verbatim>\<open>bpf/bpf_endian.h\<close>) swap the two bytes on a little-endian target
  and are the identity on a big-endian one; a 16-bit load assembles its two bytes
  accordingly. The header is not part of the repository, so the byte order is a
  parameter of the model.
\<close>

datatype byte_order = LittleEndian | BigEndian

text \<open>
  Sizes and field offsets of \<^verbatim>\<open>struct ethhdr\<close>, \<^verbatim>\<open>struct iphdr\<close> and
  \<^verbatim>\<open>struct udphdr\<close>, and the two protocol numbers the program compares with. The
  headers that declare them (\<^verbatim>\<open>linux/if_ether.h\<close>, \<^verbatim>\<open>linux/ip.h\<close>,
  \<^verbatim>\<open>linux/udp.h\<close>, \<^verbatim>\<open>linux/in.h\<close>) are not part of the repository; the values
  are those of the Ethernet II, IPv4 and UDP wire formats, which the structs follow
  byte for byte.
\<close>

definition sizeof_ethhdr :: nat where
  "sizeof_ethhdr = 14"

definition sizeof_iphdr :: nat where
  "sizeof_iphdr = 20"

definition sizeof_udphdr :: nat where
  "sizeof_udphdr = 8"

definition offsetof_h_proto :: nat where
  "offsetof_h_proto = 12"

definition offsetof_protocol :: nat where
  "offsetof_protocol = 9"

definition offsetof_dest :: nat where
  "offsetof_dest = 2"

definition ETH_P_IP :: u16 where
  "ETH_P_IP = 0x0800"

definition IPPROTO_UDP :: u8 where
  "IPPROTO_UDP = 17"

section \<open>Program state\<close>

text \<open>
  What one invocation can touch. \<open>frame\<close> is the memory from \<^verbatim>\<open>ctx->data\<close> up to
  \<^verbatim>\<open>ctx->data_end\<close>: a pointer into the frame is its offset from \<^verbatim>\<open>data\<close>, so
  \<^verbatim>\<open>data\<close> is offset \<open>0\<close> and \<^verbatim>\<open>data_end\<close> is \<open>length frame\<close>.
  \<open>port_filter\<close> and \<open>xsks_map\<close> are the two BPF maps. \<open>trace\<close> is a ghost
  field: the memory loads and helper calls made so far, in program order.
\<close>

datatype event =
    Load nat nat      \<comment> \<open>a load of the given number of bytes at the given frame offset\<close>
  | Lookup u16        \<comment> \<open>\<^verbatim>\<open>bpf_map_lookup_elem(&port_filter, &key)\<close>\<close>
  | Redirect u32      \<comment> \<open>\<^verbatim>\<open>bpf_redirect_map(&xsks_map, key, flags)\<close>\<close>

record xdp_state =
  frame :: "u8 list"
  rx_queue_index :: u32
  port_filter :: "u16 \<rightharpoonup> u8"
  xsks_map :: "u32 \<rightharpoonup> u32"
  trace :: "event list"

text \<open>
  A load outside the frame is the fault the BPF verifier exists to exclude; in the
  model it is a result of its own, so that a missing bounds check shows.
\<close>

datatype fault = OutOfBounds nat nat

definition log_event :: "event \<Rightarrow> xdp_state \<Rightarrow> xdp_state" where
  "log_event e s = s\<lparr>trace := trace s @ [e]\<rparr>"

definition load_u8 :: "nat \<Rightarrow> xdp_state \<Rightarrow> (fault + u8) \<times> xdp_state" where
  "load_u8 off s =
     (if off + 1 \<le> length (frame s) then Inr (frame s ! off) else Inl (OutOfBounds off 1),
      log_event (Load off 1) s)"

text \<open>Two bytes as a 16-bit value, the first one the more significant.\<close>

definition be16 :: "u8 \<Rightarrow> u8 \<Rightarrow> u16" where
  "be16 hi lo = push_bit 8 (ucast hi) OR ucast lo"

text \<open>A 16-bit load assembles the two bytes in memory order \<open>b0\<close>, \<open>b1\<close> by the host's byte order.\<close>

definition host16 :: "byte_order \<Rightarrow> u8 \<Rightarrow> u8 \<Rightarrow> u16" where
  "host16 host b0 b1 = (case host of LittleEndian \<Rightarrow> be16 b1 b0 | BigEndian \<Rightarrow> be16 b0 b1)"

definition load_u16 :: "byte_order \<Rightarrow> nat \<Rightarrow> xdp_state \<Rightarrow> (fault + u16) \<times> xdp_state" where
  "load_u16 host off s =
     (if off + 2 \<le> length (frame s)
      then Inr (host16 host (frame s ! off) (frame s ! (off + 1)))
      else Inl (OutOfBounds off 2),
      log_event (Load off 2) s)"

text \<open>Sequencing: a fault ends the run, a value goes on to the rest of the program.\<close>

definition and_then ::
  "(fault + 'a) \<times> xdp_state \<Rightarrow> ('a \<Rightarrow> xdp_state \<Rightarrow> (fault + 'b) \<times> xdp_state) \<Rightarrow>
   (fault + 'b) \<times> xdp_state" where
  "and_then r k = (case r of (Inl f, s) \<Rightarrow> (Inl f, s) | (Inr v, s) \<Rightarrow> k v s)"

text \<open>
  \<^verbatim>\<open>bpf_htons\<close> and \<^verbatim>\<open>bpf_ntohs\<close>: the two bytes exchanged on a little-endian host,
  nothing on a big-endian one.
\<close>

definition bswap16 :: "u16 \<Rightarrow> u16" where
  "bswap16 x = push_bit 8 x OR drop_bit 8 x"

definition bpf_htons :: "byte_order \<Rightarrow> u16 \<Rightarrow> u16" where
  "bpf_htons host x = (case host of LittleEndian \<Rightarrow> bswap16 x | BigEndian \<Rightarrow> x)"

definition bpf_ntohs :: "byte_order \<Rightarrow> u16 \<Rightarrow> u16" where
  "bpf_ntohs host x = (case host of LittleEndian \<Rightarrow> bswap16 x | BigEndian \<Rightarrow> x)"

text \<open>
  Modelled from the spec: the kernel helper \<^verbatim>\<open>bpf_map_lookup_elem\<close> is not part of the
  repository. Section 9 gives its contract, \<open>lookup(key) -> Option<Value>\<close>, and
  section 4.3 calls it a pure, side-effect-free read: the result is the stored value
  (in C a pointer to it), or nothing (\<^verbatim>\<open>NULL\<close>) when the key has no entry.
\<close>

definition bpf_map_lookup_elem :: "u16 \<Rightarrow> xdp_state \<Rightarrow> u8 option \<times> xdp_state" where
  "bpf_map_lookup_elem key s = (port_filter s key, log_event (Lookup key) s)"

text \<open>
  Modelled from the spec: the kernel helper \<^verbatim>\<open>bpf_redirect_map\<close> is not part of the
  repository. Section 4.4 gives its contract, \<open>redirect(queue_id, frame) -> Dispatched |
  FailOpen\<close>, and the comment at its call site says "Returns XDP_REDIRECT if successful,
  XDP_PASS if socket not found": when the map has a target for the key the result is
  \<^verbatim>\<open>XDP_REDIRECT\<close>, otherwise it is the action the caller passes as third argument.
\<close>

definition bpf_redirect_map :: "u32 \<Rightarrow> xdp_action \<Rightarrow> xdp_state \<Rightarrow> xdp_action \<times> xdp_state" where
  "bpf_redirect_map key flags s =
     (case xsks_map s key of None \<Rightarrow> flags | Some sock \<Rightarrow> XDP_REDIRECT,
      log_event (Redirect key) s)"

section \<open>The classifier\<close>

text \<open>
  \<^verbatim>\<open>xdp_filter_prog\<close>, statement by statement. \<open>eth\<close>, \<open>ip\<close> and \<open>udp\<close> are
  frame offsets; \<open>p + 1\<close> on a struct pointer is the offset plus the struct's size.
  \<^verbatim>\<open>ip->ihl\<close> is the low four bits of the first byte of the IP header.
\<close>

definition xdp_filter_prog :: "byte_order \<Rightarrow> xdp_state \<Rightarrow> (fault + xdp_action) \<times> xdp_state" where
  "xdp_filter_prog host s0 =
    (let data_end = length (frame s0);
         data = 0;
         eth = data
     in
     if eth + sizeof_ethhdr > data_end then (Inr XDP_PASS, s0) else
     and_then (load_u16 host (eth + offsetof_h_proto) s0) (\<lambda>h_proto s1.
     if h_proto \<noteq> bpf_htons host ETH_P_IP then (Inr XDP_PASS, s1) else
     let ip = eth + sizeof_ethhdr in
     if ip + sizeof_iphdr > data_end then (Inr XDP_PASS, s1) else
     and_then (load_u8 (ip + offsetof_protocol) s1) (\<lambda>protocol s2.
     if protocol \<noteq> IPPROTO_UDP then (Inr XDP_PASS, s2) else
     and_then (load_u8 ip s2) (\<lambda>ver_ihl s3.
     let ihl = ver_ihl AND 0x0f;
         udp = ip + unat ihl * 4
     in
     if udp + sizeof_udphdr > data_end then (Inr XDP_PASS, s3) else
     and_then (load_u16 host (udp + offsetof_dest) s3) (\<lambda>dest s4.
     let dport = bpf_ntohs host dest;
         (action, s5) = bpf_map_lookup_elem dport s4
     in
     if action = None \<or> action = Some 0 then (Inr XDP_PASS, s5) else
     let queue_id = rx_queue_index s5;
         (ret, s6) = bpf_redirect_map queue_id XDP_PASS s5
     in (Inr ret, s6))))))"

text \<open>
  The events one invocation adds to the trace, and a state with events appended; both
  only serve to state what a run did.
\<close>

definition run_events :: "byte_order \<Rightarrow> xdp_state \<Rightarrow> event list" where
  "run_events host s = drop (length (trace s)) (trace (snd (xdp_filter_prog host s)))"

definition logged :: "event list \<Rightarrow> xdp_state \<Rightarrow> xdp_state" where
  "logged es s = s\<lparr>trace := trace s @ es\<rparr>"

section \<open>The wire format the claims speak about\<close>

text \<open>
  The fields of an Ethernet II / IPv4 / UDP frame as they lie on the wire, with
  literal offsets and multi-byte fields in network byte order. These definitions do
  not mention the program: the theorems below relate what the program computes
  (through pointers, host-order loads and byte swaps) to them.
\<close>

definition ether_type :: "u8 list \<Rightarrow> u16" where
  "ether_type f = be16 (f ! 12) (f ! 13)"

definition ip_protocol :: "u8 list \<Rightarrow> u8" where
  "ip_protocol f = f ! 23"

definition ip_ihl :: "u8 list \<Rightarrow> nat" where
  "ip_ihl f = unat (f ! 14 AND 0x0f)"

definition udp_offset :: "u8 list \<Rightarrow> nat" where
  "udp_offset f = 14 + ip_ihl f * 4"

definition udp_dport :: "u8 list \<Rightarrow> u16" where
  "udp_dport f = be16 (f ! (udp_offset f + 2)) (f ! (udp_offset f + 3))"

text \<open>A complete Ethernet header whose EtherType is IPv4.\<close>

definition ipv4_frame :: "u8 list \<Rightarrow> bool" where
  "ipv4_frame f \<longleftrightarrow> 14 \<le> length f \<and> ether_type f = 0x0800"

text \<open>... followed by a complete fixed IPv4 header whose protocol is UDP.\<close>

definition ipv4_udp_headers :: "u8 list \<Rightarrow> bool" where
  "ipv4_udp_headers f \<longleftrightarrow> ipv4_frame f \<and> 34 \<le> length f \<and> ip_protocol f = 17"

text \<open>
  ... followed, at the offset the header-length field gives, by a complete UDP header.
  Nothing is asked of the header-length field itself, so every well-formed frame
  (version 4, \<open>5 \<le> ihl\<close>) with these three headers is a \<open>udp_frame\<close>.
\<close>

definition udp_frame :: "u8 list \<Rightarrow> bool" where
  "udp_frame f \<longleftrightarrow> ipv4_udp_headers f \<and> udp_offset f + 8 \<le> length f"

section \<open>Example frames and states\<close>

text \<open>
  A 42-byte frame: Ethernet (EtherType \<open>08 00\<close>), an IPv4 header without options
  (first byte \<open>0x45\<close>, protocol 17) and a UDP header with no payload, to destination
  port 8001 (\<open>0x1f41\<close>). The UDP header ends exactly at the frame end.
\<close>

definition frame_8001 :: "u8 list" where
  "frame_8001 =
     [0x02, 0, 0, 0, 0, 0x01,  0x02, 0, 0, 0, 0, 0x02,  0x08, 0x00,
      0x45, 0, 0, 28,  0, 0, 0, 0,  64, 17, 0, 0,  10, 0, 0, 1,  10, 0, 0, 2,
      0x30, 0x39, 0x1f, 0x41,  0, 8, 0, 0]"

text \<open>Variants: destination port 9999 (\<open>0x270f\<close>); EtherType IPv6; protocol TCP.\<close>

definition frame_9999 :: "u8 list" where
  "frame_9999 = frame_8001[36 := 0x27, 37 := 0x0f]"

definition frame_ipv6 :: "u8 list" where
  "frame_ipv6 = frame_8001[12 := 0x86, 13 := 0xdd]"

definition frame_tcp :: "u8 list" where
  "frame_tcp = frame_8001[23 := 6]"

text \<open>
  Variants in the header-length field: \<open>ihl = 15\<close>, which puts the UDP header at
  offset 74, beyond the 42 bytes; and \<open>ihl = 0\<close>, which puts it at offset 14, on top
  of the IPv4 header, whose total-length field (bytes 16 and 17) then holds \<open>0x1f41\<close>.
\<close>

definition frame_ihl15 :: "u8 list" where
  "frame_ihl15 = frame_8001[14 := 0x4f]"

definition frame_ihl0 :: "u8 list" where
  "frame_ihl0 = frame_8001[14 := 0x40, 16 := 0x1f, 17 := 0x41, 36 := 0, 37 := 0]"

text \<open>A state on receive queue 3, with the given frame and tables and an empty trace.\<close>

definition queue3 :: "u8 list \<Rightarrow> (u16 \<rightharpoonup> u8) \<Rightarrow> (u32 \<rightharpoonup> u32) \<Rightarrow> xdp_state" where
  "queue3 f pf xsks =
     \<lparr>frame = f, rx_queue_index = 3, port_filter = pf, xsks_map = xsks, trace = []\<rparr>"

text \<open>
  The tables of the specification's scenario: port 8001 has the redirect entry and queue
  3 has a delivery target. Then the same with the pass entry, with another nonzero
  action byte, and with no delivery target at all.
\<close>

definition redirect_8001 :: "u8 list \<Rightarrow> xdp_state" where
  "redirect_8001 f = queue3 f [8001 \<mapsto> 1] [3 \<mapsto> 77]"

definition pass_8001 :: "u8 list \<Rightarrow> xdp_state" where
  "pass_8001 f = queue3 f [8001 \<mapsto> 0] [3 \<mapsto> 77]"

definition action7_8001 :: "u8 list \<Rightarrow> xdp_state" where
  "action7_8001 f = queue3 f [8001 \<mapsto> 7] [3 \<mapsto> 77]"

definition no_target_8001 :: "u8 list \<Rightarrow> xdp_state" where
  "no_target_8001 f = queue3 f [8001 \<mapsto> 1] Map.empty"

section \<open>Byte order\<close>

lemma bswap16_be16: "bswap16 (be16 a b) = be16 b a"
  unfolding bswap16_def be16_def
  by (rule bit_word_eqI) (auto simp add: bit_simps dest: bit_imp_le_length)

lemma bswap16_bswap16: "bswap16 (bswap16 x) = x"
  unfolding bswap16_def
  by (rule bit_word_eqI) (auto simp add: bit_simps dest: bit_imp_le_length)

text \<open>A 16-bit load followed by \<^verbatim>\<open>bpf_ntohs\<close> yields the network-order value on either host.\<close>

lemma bpf_ntohs_host16: "bpf_ntohs host (host16 host b0 b1) = be16 b0 b1"
  by (cases host) (simp_all add: bpf_ntohs_def host16_def bswap16_be16)

lemma bpf_ntohs_htons: "bpf_ntohs host (bpf_htons host x) = x"
  by (cases host) (simp_all add: bpf_ntohs_def bpf_htons_def bswap16_bswap16)

text \<open>Comparing a loaded field with \<^verbatim>\<open>bpf_htons(c)\<close> compares its network-order value with \<open>c\<close>.\<close>

lemma host16_eq_htons: "host16 host b0 b1 = bpf_htons host c \<longleftrightarrow> be16 b0 b1 = c"
proof
  assume "host16 host b0 b1 = bpf_htons host c"
  then have "bpf_ntohs host (host16 host b0 b1) = bpf_ntohs host (bpf_htons host c)"
    by simp
  then show "be16 b0 b1 = c"
    by (simp add: bpf_ntohs_host16 bpf_ntohs_htons)
next
  assume "be16 b0 b1 = c"
  then show "host16 host b0 b1 = bpf_htons host c"
    by (cases host) (auto simp add: host16_def bpf_htons_def bswap16_be16)
qed

text \<open>The numeric value of two bytes in network order.\<close>

lemma be16_add: "be16 hi lo = 256 * ucast hi + ucast lo"
proof -
  have "push_bit 8 (ucast hi :: u16) OR ucast lo = push_bit 8 (ucast hi) + ucast lo"
    by (rule disjunctive_add [symmetric]) (auto simp add: bit_simps dest: bit_imp_le_length)
  then show ?thesis
    by (simp add: be16_def push_bit_eq_mult)
qed

lemma unat_ucast_u8: "unat (ucast (b :: u8) :: u16) = unat b"
proof -
  have "unat b < 2 ^ 16"
    using unsigned_less [of b, where ?'a = nat] by simp
  then show ?thesis
    by (simp add: unsigned_ucast_eq take_bit_nat_eq_self)
qed

lemma unat_be16: "unat (be16 hi lo) = 256 * unat hi + unat lo"
proof -
  have hi: "unat hi < 256" and lo: "unat lo < 256"
    using unsigned_less [of hi, where ?'a = nat] unsigned_less [of lo, where ?'a = nat] by simp_all
  have "unat (256 * ucast hi + ucast lo :: u16) = 256 * unat hi + unat lo"
    using hi lo by (simp add: unat_word_ariths unat_ucast_u8)
  then show ?thesis
    by (simp add: be16_add)
qed

section \<open>What a run does, stage by stage\<close>

text \<open>A load that does not fit the frame is a fault: the bounds checks are not idle.\<close>

lemma load_u8_out_of_bounds:
  "length (frame s) \<le> off \<Longrightarrow> fst (load_u8 off s) = Inl (OutOfBounds off 1)"
  by (simp add: load_u8_def)

lemma load_u16_out_of_bounds:
  "length (frame s) < off + 2 \<Longrightarrow> fst (load_u16 host off s) = Inl (OutOfBounds off 2)"
  by (simp add: load_u16_def)

lemma and_then_fault:
  "fst r = Inl f \<Longrightarrow> fst (and_then r k) = Inl f"
  by (cases r) (simp add: and_then_def)

lemmas prog_defs = xdp_filter_prog_def and_then_def load_u16_def load_u8_def
  bpf_map_lookup_elem_def bpf_redirect_map_def log_event_def
  sizeof_ethhdr_def sizeof_iphdr_def sizeof_udphdr_def offsetof_h_proto_def
  offsetof_protocol_def offsetof_dest_def ETH_P_IP_def IPPROTO_UDP_def
  host16_eq_htons bpf_ntohs_host16

lemmas example_defs = frame_8001_def frame_9999_def frame_ipv6_def frame_tcp_def
  frame_ihl15_def frame_ihl0_def queue3_def redirect_8001_def pass_8001_def
  action7_8001_def no_target_8001_def be16_def

lemmas wire_defs = udp_frame_def ipv4_udp_headers_def ipv4_frame_def ether_type_def
  ip_protocol_def ip_ihl_def udp_offset_def udp_dport_def

lemma run_short_eth:
  "length (frame s) < 14 \<Longrightarrow> xdp_filter_prog host s = (Inr XDP_PASS, logged [] s)"
  by (simp add: prog_defs logged_def)

lemma run_not_ipv4:
  "14 \<le> length (frame s) \<Longrightarrow> ether_type (frame s) \<noteq> 0x0800 \<Longrightarrow>
   xdp_filter_prog host s = (Inr XDP_PASS, logged [Load 12 2] s)"
  by (simp add: prog_defs wire_defs logged_def)

lemma run_short_ip:
  "ipv4_frame (frame s) \<Longrightarrow> length (frame s) < 34 \<Longrightarrow>
   xdp_filter_prog host s = (Inr XDP_PASS, logged [Load 12 2] s)"
  by (simp add: prog_defs wire_defs logged_def)

lemma run_not_udp:
  "ipv4_frame (frame s) \<Longrightarrow> 34 \<le> length (frame s) \<Longrightarrow> ip_protocol (frame s) \<noteq> 17 \<Longrightarrow>
   xdp_filter_prog host s = (Inr XDP_PASS, logged [Load 12 2, Load 23 1] s)"
  by (simp add: prog_defs wire_defs logged_def)

lemma run_short_udp:
  "ipv4_udp_headers (frame s) \<Longrightarrow> length (frame s) < udp_offset (frame s) + 8 \<Longrightarrow>
   xdp_filter_prog host s = (Inr XDP_PASS, logged [Load 12 2, Load 23 1, Load 14 1] s)"
  by (simp add: prog_defs wire_defs logged_def)

lemma run_udp_pass:
  "udp_frame (frame s) \<Longrightarrow>
   port_filter s (udp_dport (frame s)) = None \<or> port_filter s (udp_dport (frame s)) = Some 0 \<Longrightarrow>
   xdp_filter_prog host s =
     (Inr XDP_PASS,
      logged [Load 12 2, Load 23 1, Load 14 1, Load (udp_offset (frame s) + 2) 2,
              Lookup (udp_dport (frame s))] s)"
  by (simp add: prog_defs wire_defs logged_def Let_def)

lemma run_udp_redirect:
  "udp_frame (frame s) \<Longrightarrow> port_filter s (udp_dport (frame s)) = Some v \<Longrightarrow> v \<noteq> 0 \<Longrightarrow>
   xdp_filter_prog host s =
     (Inr (case xsks_map s (rx_queue_index s) of None \<Rightarrow> XDP_PASS | Some sock \<Rightarrow> XDP_REDIRECT),
      logged [Load 12 2, Load 23 1, Load 14 1, Load (udp_offset (frame s) + 2) 2,
              Lookup (udp_dport (frame s)), Redirect (rx_queue_index s)] s)"
  by (simp add: prog_defs wire_defs logged_def Let_def)

lemma run_events_logged:
  "xdp_filter_prog host s = (r, logged es s) \<Longrightarrow> run_events host s = es"
  by (simp add: run_events_def logged_def)

text \<open>Every frame is in exactly one of the six stages above.\<close>

lemma frame_stages:
  obtains
    (short_eth) "length f < 14"
  | (not_ipv4) "14 \<le> length f" "ether_type f \<noteq> 0x0800"
  | (short_ip) "ipv4_frame f" "length f < 34"
  | (not_udp) "ipv4_frame f" "34 \<le> length f" "ip_protocol f \<noteq> 17"
  | (short_udp) "ipv4_udp_headers f" "length f < udp_offset f + 8"
  | (udp) "udp_frame f"
  unfolding udp_frame_def ipv4_udp_headers_def ipv4_frame_def
  by (meson not_le)

text \<open>
  Every run ends without a fault in \<^verbatim>\<open>XDP_PASS\<close> or \<^verbatim>\<open>XDP_REDIRECT\<close>, changes
  nothing but the trace, and every load it logs lies inside the frame.
\<close>

lemma run_result:
  obtains a es where "xdp_filter_prog host s = (Inr a, logged es s)"
    and "a = XDP_PASS \<or> a = XDP_REDIRECT"
    and "\<forall>off n. Load off n \<in> set es \<longrightarrow> off + n \<le> length (frame s)"
proof (cases "frame s" rule: frame_stages)
  case short_eth
  then show ?thesis
    by (intro that [OF run_short_eth]) simp_all
next
  case not_ipv4
  then show ?thesis
    by (intro that [OF run_not_ipv4]) simp_all
next
  case short_ip
  then show ?thesis
    by (intro that [OF run_short_ip]) (simp_all add: ipv4_frame_def)
next
  case not_udp
  then show ?thesis
    by (intro that [OF run_not_udp]) auto
next
  case short_udp
  then show ?thesis
    by (intro that [OF run_short_udp]) (auto simp add: ipv4_udp_headers_def)
next
  case udp
  then have len: "34 \<le> length (frame s)" "udp_offset (frame s) + 8 \<le> length (frame s)"
    by (simp_all add: udp_frame_def ipv4_udp_headers_def)
  show ?thesis
  proof (cases "port_filter s (udp_dport (frame s)) = None \<or>
      port_filter s (udp_dport (frame s)) = Some 0")
    case True
    show ?thesis
      by (rule that [OF run_udp_pass [OF udp True]]) (use len in auto)
  next
    case False
    then obtain v where "port_filter s (udp_dport (frame s)) = Some v" "v \<noteq> 0"
      by auto
    then show ?thesis
      by (intro that [OF run_udp_redirect [OF udp]])
        (use len in \<open>auto split: option.splits\<close>)
  qed
qed

section \<open>The claims\<close>

text \<open>
  C1 (totality and memory safety). For every frame, of any length and content, on either
  byte order and with any table contents, the run ends without a fault in
  \<^verbatim>\<open>XDP_PASS\<close> or in \<^verbatim>\<open>XDP_REDIRECT\<close>; it only appends to the trace; and every
  load it makes ends at or before the frame end, so no byte at or past
  \<^verbatim>\<open>data_end\<close> is read.
\<close>

theorem xdp_filter_prog_total_in_bounds:
  "(fst (xdp_filter_prog host s) = Inr XDP_PASS \<or>
    fst (xdp_filter_prog host s) = Inr XDP_REDIRECT) \<and>
   trace (snd (xdp_filter_prog host s)) = trace s @ run_events host s \<and>
   (\<forall>off n. Load off n \<in> set (run_events host s) \<longrightarrow> off + n \<le> length (frame s))"
proof -
  obtain a es where run: "xdp_filter_prog host s = (Inr a, logged es s)"
    and a: "a = XDP_PASS \<or> a = XDP_REDIRECT"
    and es: "\<forall>off n. Load off n \<in> set es \<longrightarrow> off + n \<le> length (frame s)"
    by (rule run_result [where host = host and s = s])
  from run have "run_events host s = es"
    by (rule run_events_logged)
  with run a es show ?thesis
    by (auto simp add: logged_def)
qed

text \<open>
  At the empty frame and at the example frame cut one byte short of the end of its
  Ethernet header (13 bytes), of its IPv4 header (33) and of its UDP header (41): the
  result is \<^verbatim>\<open>XDP_PASS\<close> each time, and in the last case the load of the
  header-length byte at offset 14 is in bounds.
\<close>

theorem xdp_filter_prog_total_in_bounds_witness:
  "fst (xdp_filter_prog LittleEndian (redirect_8001 [])) = Inr XDP_PASS \<and>
   fst (xdp_filter_prog LittleEndian (redirect_8001 (take 13 frame_8001))) = Inr XDP_PASS \<and>
   fst (xdp_filter_prog LittleEndian (redirect_8001 (take 33 frame_8001))) = Inr XDP_PASS \<and>
   fst (xdp_filter_prog LittleEndian (redirect_8001 (take 41 frame_8001))) = Inr XDP_PASS \<and>
   Load 14 1 \<in> set (run_events LittleEndian (redirect_8001 (take 41 frame_8001))) \<and>
   14 + 1 \<le> length (frame (redirect_8001 (take 41 frame_8001)))"
  using xdp_filter_prog_total_in_bounds [of LittleEndian "redirect_8001 []"]
    xdp_filter_prog_total_in_bounds [of LittleEndian "redirect_8001 (take 13 frame_8001)"]
    xdp_filter_prog_total_in_bounds [of LittleEndian "redirect_8001 (take 33 frame_8001)"]
    xdp_filter_prog_total_in_bounds [of LittleEndian "redirect_8001 (take 41 frame_8001)"]
  by (simp add: run_events_def prog_defs example_defs)

text \<open>
  C2 (the bounds check after the variable header length), as amended. For every frame
  with a complete Ethernet header of EtherType IPv4 and a complete fixed IPv4 header of
  protocol UDP, the UDP header is taken at offset \<open>14 + ihl * 4\<close>, where 14 is the
  start of the IPv4 header. If that offset plus the eight bytes of the UDP header lies
  beyond the frame end, the result is \<^verbatim>\<open>XDP_PASS\<close> and every load made ends at or
  before the UDP header's offset; and the destination port of the UDP header is loaded
  if and only if the offset plus eight is at most the frame end.
\<close>

theorem udp_bounds_recheck:
  assumes "ipv4_udp_headers (frame s)"
  shows "(length (frame s) < udp_offset (frame s) + 8 \<longrightarrow>
            fst (xdp_filter_prog host s) = Inr XDP_PASS \<and>
            (\<forall>off n. Load off n \<in> set (run_events host s) \<longrightarrow>
               off + n \<le> udp_offset (frame s))) \<and>
         (Load (udp_offset (frame s) + 2) 2 \<in> set (run_events host s) \<longleftrightarrow>
            udp_offset (frame s) + 8 \<le> length (frame s))"
proof (cases "length (frame s) < udp_offset (frame s) + 8")
  case True
  from assms have "34 \<le> length (frame s)"
    by (simp add: ipv4_udp_headers_def)
  with True have off: "24 \<le> udp_offset (frame s)"
    by (simp add: udp_offset_def)
  from assms True
  have run: "xdp_filter_prog host s = (Inr XDP_PASS, logged [Load 12 2, Load 23 1, Load 14 1] s)"
    by (rule run_short_udp)
  then have "run_events host s = [Load 12 2, Load 23 1, Load 14 1]"
    by (rule run_events_logged)
  with run True off show ?thesis
    by auto
next
  case False
  with assms have udp: "udp_frame (frame s)"
    by (simp add: udp_frame_def)
  have "Load (udp_offset (frame s) + 2) 2 \<in> set (run_events host s)"
  proof (cases "port_filter s (udp_dport (frame s)) = None \<or>
      port_filter s (udp_dport (frame s)) = Some 0")
    case True
    show ?thesis
      by (simp add: run_events_logged [OF run_udp_pass [OF udp True]])
  next
    case False
    then obtain v where "port_filter s (udp_dport (frame s)) = Some v" "v \<noteq> 0"
      by auto
    then show ?thesis
      by (simp add: run_events_logged [OF run_udp_redirect [OF udp]])
  qed
  with False show ?thesis
    by simp
qed

text \<open>
  At the frame with \<open>ihl = 15\<close>: the UDP header would start at offset 74 of 42 bytes,
  the result is \<^verbatim>\<open>XDP_PASS\<close>, and the load of the protocol byte ends before offset 74.
\<close>

theorem udp_bounds_recheck_witness:
  "ipv4_udp_headers (frame (redirect_8001 frame_ihl15)) \<and>
   ip_ihl (frame (redirect_8001 frame_ihl15)) = 15 \<and>
   length (frame (redirect_8001 frame_ihl15)) < udp_offset (frame (redirect_8001 frame_ihl15)) + 8 \<and>
   fst (xdp_filter_prog LittleEndian (redirect_8001 frame_ihl15)) = Inr XDP_PASS \<and>
   Load 23 1 \<in> set (run_events LittleEndian (redirect_8001 frame_ihl15)) \<and>
   23 + 1 \<le> udp_offset (frame (redirect_8001 frame_ihl15)) \<and>
   Load (udp_offset (frame (redirect_8001 frame_ihl15)) + 2) 2
     \<notin> set (run_events LittleEndian (redirect_8001 frame_ihl15))"
  using udp_bounds_recheck [of "redirect_8001 frame_ihl15" LittleEndian]
  by (simp add: run_events_def prog_defs wire_defs example_defs)

text \<open>
  C2 as stated fails where the offset plus the UDP header size falls exactly at the frame
  end: the 42-byte frame has its UDP header at offset 34, and \<open>34 + 8 = 42\<close>. The header
  is complete, the check \<^verbatim>\<open>(void *)(udp + 1) > data_end\<close> lets it through, the
  destination port is loaded from offset 36 and the frame is redirected.
\<close>

theorem udp_header_ending_at_frame_end_counterexample:
  "ipv4_udp_headers (frame (redirect_8001 frame_8001)) \<and>
   length (frame (redirect_8001 frame_8001)) \<le> udp_offset (frame (redirect_8001 frame_8001)) + 8 \<and>
   fst (xdp_filter_prog LittleEndian (redirect_8001 frame_8001)) = Inr XDP_REDIRECT \<and>
   fst (xdp_filter_prog LittleEndian (redirect_8001 frame_8001)) \<noteq> Inr XDP_PASS \<and>
   Load 36 2 \<in> set (run_events LittleEndian (redirect_8001 frame_8001))"
  by (simp add: run_events_def prog_defs wire_defs example_defs)

text \<open>
  C3 (policy fidelity). For every frame with complete Ethernet, IPv4 and UDP headers and
  destination port \<open>P\<close>: if the port filter table maps \<open>P\<close> to 1 (redirect) and the
  redirect table has a target for the frame's receive queue, the result is
  \<^verbatim>\<open>XDP_REDIRECT\<close>; if the table maps \<open>P\<close> to 0 (pass) or has no entry for \<open>P\<close>,
  the result is \<^verbatim>\<open>XDP_PASS\<close>.
\<close>

theorem policy_fidelity:
  assumes "udp_frame (frame s)" and "udp_dport (frame s) = P"
  shows "(port_filter s P = Some 1 \<and> xsks_map s (rx_queue_index s) \<noteq> None \<longrightarrow>
            fst (xdp_filter_prog host s) = Inr XDP_REDIRECT) \<and>
         (port_filter s P = Some 0 \<or> port_filter s P = None \<longrightarrow>
            fst (xdp_filter_prog host s) = Inr XDP_PASS)"
proof (intro conjI impI)
  assume "port_filter s P = Some 1 \<and> xsks_map s (rx_queue_index s) \<noteq> None"
  with assms show "fst (xdp_filter_prog host s) = Inr XDP_REDIRECT"
    by (auto simp add: run_udp_redirect [where v = 1])
next
  assume "port_filter s P = Some 0 \<or> port_filter s P = None"
  with assms show "fst (xdp_filter_prog host s) = Inr XDP_PASS"
    by (auto simp add: run_udp_pass)
qed

text \<open>
  The scenario of the specification on queue 3: the frame to port 8001 with the entry
  \<open>8001 \<mapsto> 1\<close> is redirected; with the entry \<open>8001 \<mapsto> 0\<close> it is passed; the frame
  to port 9999, which has no entry, is passed.
\<close>

theorem policy_fidelity_witness:
  "udp_frame (frame (redirect_8001 frame_8001)) \<and>
   udp_dport (frame (redirect_8001 frame_8001)) = 8001 \<and>
   port_filter (redirect_8001 frame_8001) 8001 = Some 1 \<and>
   xsks_map (redirect_8001 frame_8001) (rx_queue_index (redirect_8001 frame_8001)) \<noteq> None \<and>
   fst (xdp_filter_prog LittleEndian (redirect_8001 frame_8001)) = Inr XDP_REDIRECT \<and>
   port_filter (pass_8001 frame_8001) 8001 = Some 0 \<and>
   fst (xdp_filter_prog LittleEndian (pass_8001 frame_8001)) = Inr XDP_PASS \<and>
   udp_dport (frame (redirect_8001 frame_9999)) = 9999 \<and>
   port_filter (redirect_8001 frame_9999) 9999 = None \<and>
   fst (xdp_filter_prog LittleEndian (redirect_8001 frame_9999)) = Inr XDP_PASS"
  using policy_fidelity [of "redirect_8001 frame_8001" 8001 LittleEndian]
    policy_fidelity [of "pass_8001 frame_8001" 8001 LittleEndian]
    policy_fidelity [of "redirect_8001 frame_9999" 9999 LittleEndian]
  by (simp add: wire_defs example_defs)

text \<open>
  C4 (fail open). For every frame with complete Ethernet, IPv4 and UDP headers whose
  destination port has the redirect entry, if the redirect table has no target for the
  frame's receive queue then the result is \<^verbatim>\<open>XDP_PASS\<close>: not a fault, not
  \<^verbatim>\<open>XDP_ABORTED\<close> and not \<^verbatim>\<open>XDP_DROP\<close>.
\<close>

theorem missing_target_fails_open:
  assumes "udp_frame (frame s)"
    and "port_filter s (udp_dport (frame s)) = Some 1"
    and "xsks_map s (rx_queue_index s) = None"
  shows "fst (xdp_filter_prog host s) = Inr XDP_PASS"
  using assms by (simp add: run_udp_redirect [where v = 1])

text \<open>At the frame to port 8001 with the entry \<open>8001 \<mapsto> 1\<close> and an empty redirect table.\<close>

theorem missing_target_fails_open_witness:
  "udp_frame (frame (no_target_8001 frame_8001)) \<and>
   port_filter (no_target_8001 frame_8001) (udp_dport (frame (no_target_8001 frame_8001))) = Some 1 \<and>
   xsks_map (no_target_8001 frame_8001) (rx_queue_index (no_target_8001 frame_8001)) = None \<and>
   fst (xdp_filter_prog LittleEndian (no_target_8001 frame_8001)) = Inr XDP_PASS"
  using missing_target_fails_open [of "no_target_8001 frame_8001" LittleEndian]
  by (simp add: wire_defs example_defs)

text \<open>
  C5 (non-IPv4 passthrough). A frame with a complete Ethernet header whose EtherType is
  not \<open>0x0800\<close> ends in \<^verbatim>\<open>XDP_PASS\<close>, whatever follows the header and whatever the
  two tables hold.
\<close>

theorem non_ipv4_passes:
  assumes "14 \<le> length (frame s)" and "ether_type (frame s) \<noteq> 0x0800"
  shows "fst (xdp_filter_prog host s) = Inr XDP_PASS"
  using assms by (simp add: run_not_ipv4)

text \<open>At the frame with EtherType \<open>0x86dd\<close>, otherwise addressed to the redirected port.\<close>

theorem non_ipv4_passes_witness:
  "14 \<le> length (frame (redirect_8001 frame_ipv6)) \<and>
   ether_type (frame (redirect_8001 frame_ipv6)) \<noteq> 0x0800 \<and>
   fst (xdp_filter_prog LittleEndian (redirect_8001 frame_ipv6)) = Inr XDP_PASS"
  using non_ipv4_passes [of "redirect_8001 frame_ipv6" LittleEndian]
  by (simp add: wire_defs example_defs)

text \<open>
  C6 (non-UDP passthrough). A frame with a complete Ethernet header of EtherType IPv4 and
  a complete fixed IPv4 header whose protocol is not 17 ends in \<^verbatim>\<open>XDP_PASS\<close>,
  whatever the two tables hold.
\<close>

theorem non_udp_passes:
  assumes "ipv4_frame (frame s)" and "34 \<le> length (frame s)"
    and "ip_protocol (frame s) \<noteq> 17"
  shows "fst (xdp_filter_prog host s) = Inr XDP_PASS"
  using assms by (simp add: run_not_udp)

text \<open>At the frame with protocol 6 (TCP), otherwise addressed to the redirected port.\<close>

theorem non_udp_passes_witness:
  "ipv4_frame (frame (redirect_8001 frame_tcp)) \<and>
   34 \<le> length (frame (redirect_8001 frame_tcp)) \<and>
   ip_protocol (frame (redirect_8001 frame_tcp)) \<noteq> 17 \<and>
   fst (xdp_filter_prog BigEndian (redirect_8001 frame_tcp)) = Inr XDP_PASS"
  using non_udp_passes [of "redirect_8001 frame_tcp" BigEndian]
  by (simp add: wire_defs example_defs)

text \<open>
  C7 (the lookup key). For every frame with complete Ethernet, IPv4 and UDP headers, on
  either byte order, the run looks up the port filter table under exactly one key: the
  destination-port field read in network byte order, that is 256 times the byte at
  offset 2 of the UDP header plus the byte at offset 3.
\<close>

theorem lookup_key_is_network_order_port:
  assumes "udp_frame (frame s)"
  shows "(Lookup k \<in> set (run_events host s) \<longleftrightarrow> k = udp_dport (frame s)) \<and>
         unat (udp_dport (frame s)) =
           256 * unat (frame s ! (udp_offset (frame s) + 2)) +
           unat (frame s ! (udp_offset (frame s) + 3))"
proof -
  have "Lookup k \<in> set (run_events host s) \<longleftrightarrow> k = udp_dport (frame s)"
  proof (cases "port_filter s (udp_dport (frame s)) = None \<or>
      port_filter s (udp_dport (frame s)) = Some 0")
    case True
    show ?thesis
      by (auto simp add: run_events_logged [OF run_udp_pass [OF assms True]])
  next
    case False
    then obtain v where "port_filter s (udp_dport (frame s)) = Some v" "v \<noteq> 0"
      by auto
    then show ?thesis
      by (auto simp add: run_events_logged [OF run_udp_redirect [OF assms]])
  qed
  then show ?thesis
    by (simp add: udp_dport_def unat_be16)
qed

text \<open>
  At the frame whose destination-port bytes are \<open>1f 41\<close>: on a little-endian and on a
  big-endian host alike the key is 8001, and not the byte-swapped 16671 (\<open>0x411f\<close>).
\<close>

theorem lookup_key_is_network_order_port_witness:
  "udp_frame (frame (redirect_8001 frame_8001)) \<and>
   Lookup 8001 \<in> set (run_events LittleEndian (redirect_8001 frame_8001)) \<and>
   Lookup 8001 \<in> set (run_events BigEndian (redirect_8001 frame_8001)) \<and>
   Lookup 16671 \<notin> set (run_events LittleEndian (redirect_8001 frame_8001)) \<and>
   unat (udp_dport (frame (redirect_8001 frame_8001))) = 256 * 31 + 65"
  using lookup_key_is_network_order_port [of "redirect_8001 frame_8001" 8001 LittleEndian]
    lookup_key_is_network_order_port [of "redirect_8001 frame_8001" 8001 BigEndian]
    lookup_key_is_network_order_port [of "redirect_8001 frame_8001" 16671 LittleEndian]
  by (simp add: wire_defs example_defs)

text \<open>
  C8 (no writes). After every run the frame, the port filter table and the queue
  redirect table are what they were before.
\<close>

theorem xdp_filter_prog_read_only:
  "frame (snd (xdp_filter_prog host s)) = frame s \<and>
   port_filter (snd (xdp_filter_prog host s)) = port_filter s \<and>
   xsks_map (snd (xdp_filter_prog host s)) = xsks_map s"
proof -
  obtain a es where "xdp_filter_prog host s = (Inr a, logged es s)"
    by (rule run_result)
  then show ?thesis
    by (simp add: logged_def)
qed

text \<open>
  C9 (any nonzero action redirects). For every frame with complete Ethernet, IPv4 and UDP
  headers: if the port filter table holds any nonzero byte for the destination port, the
  run calls the redirect helper for the frame's receive queue and returns the helper's
  result (\<^verbatim>\<open>XDP_REDIRECT\<close> with a target, \<^verbatim>\<open>XDP_PASS\<close> without); if it holds 0
  or has no entry, the run returns \<^verbatim>\<open>XDP_PASS\<close> and never calls the helper.
\<close>

theorem nonzero_action_redirects:
  assumes "udp_frame (frame s)"
  shows "(port_filter s (udp_dport (frame s)) = Some v \<and> v \<noteq> 0 \<longrightarrow>
            Redirect (rx_queue_index s) \<in> set (run_events host s) \<and>
            fst (xdp_filter_prog host s) =
              Inr (if xsks_map s (rx_queue_index s) = None then XDP_PASS else XDP_REDIRECT)) \<and>
         (port_filter s (udp_dport (frame s)) = Some 0 \<or>
          port_filter s (udp_dport (frame s)) = None \<longrightarrow>
            (\<forall>q. Redirect q \<notin> set (run_events host s)) \<and>
            fst (xdp_filter_prog host s) = Inr XDP_PASS)"
proof (intro conjI impI)
  assume v: "port_filter s (udp_dport (frame s)) = Some v \<and> v \<noteq> 0"
  then have run: "xdp_filter_prog host s =
     (Inr (case xsks_map s (rx_queue_index s) of None \<Rightarrow> XDP_PASS | Some sock \<Rightarrow> XDP_REDIRECT),
      logged [Load 12 2, Load 23 1, Load 14 1, Load (udp_offset (frame s) + 2) 2,
              Lookup (udp_dport (frame s)), Redirect (rx_queue_index s)] s)"
    using assms by (simp add: run_udp_redirect)
  show "Redirect (rx_queue_index s) \<in> set (run_events host s)"
    by (simp add: run_events_logged [OF run])
  show "fst (xdp_filter_prog host s) =
      Inr (if xsks_map s (rx_queue_index s) = None then XDP_PASS else XDP_REDIRECT)"
    by (simp add: run split: option.splits)
next
  assume "port_filter s (udp_dport (frame s)) = Some 0 \<or>
    port_filter s (udp_dport (frame s)) = None"
  then have pass: "port_filter s (udp_dport (frame s)) = None \<or>
    port_filter s (udp_dport (frame s)) = Some 0"
    by blast
  show "\<forall>q. Redirect q \<notin> set (run_events host s)"
    by (simp add: run_events_logged [OF run_udp_pass [OF assms pass]])
  show "fst (xdp_filter_prog host s) = Inr XDP_PASS"
    by (simp add: run_udp_pass [OF assms pass])
qed

text \<open>
  At the frame to port 8001 on queue 3: with the stored action 7 the helper is called and
  the frame redirected; with the stored action 0 the helper is not called.
\<close>

theorem nonzero_action_redirects_witness:
  "udp_frame (frame (action7_8001 frame_8001)) \<and>
   port_filter (action7_8001 frame_8001) (udp_dport (frame (action7_8001 frame_8001))) = Some 7 \<and>
   Redirect 3 \<in> set (run_events LittleEndian (action7_8001 frame_8001)) \<and>
   fst (xdp_filter_prog LittleEndian (action7_8001 frame_8001)) = Inr XDP_REDIRECT \<and>
   port_filter (pass_8001 frame_8001) (udp_dport (frame (pass_8001 frame_8001))) = Some 0 \<and>
   Redirect 3 \<notin> set (run_events LittleEndian (pass_8001 frame_8001)) \<and>
   fst (xdp_filter_prog LittleEndian (pass_8001 frame_8001)) = Inr XDP_PASS"
  using nonzero_action_redirects [of "action7_8001 frame_8001" 7 LittleEndian]
    nonzero_action_redirects [of "pass_8001 frame_8001" 0 LittleEndian]
  by (simp add: wire_defs example_defs)

text \<open>
  C10 (no lower bound on the header length), as amended. For every frame with a complete
  Ethernet header of EtherType IPv4 and a complete 20-byte fixed IPv4 header (at least 34
  bytes) of protocol UDP whose header-length field is below 5, if \<open>14 + ihl * 4 + 8\<close> is
  at most the frame end then the run goes on: it loads the two "destination port" bytes
  from offset \<open>14 + ihl * 4 + 2\<close>, which lies inside the fixed IPv4 header (offsets 14
  to 33), looks their value up in the port filter table, and returns what the tables
  say for it.
\<close>

theorem short_ihl_is_classified:
  assumes "ipv4_udp_headers (frame s)" and "ip_ihl (frame s) < 5"
    and "udp_offset (frame s) + 8 \<le> length (frame s)"
  shows "Load (udp_offset (frame s) + 2) 2 \<in> set (run_events host s) \<and>
         14 \<le> udp_offset (frame s) + 2 \<and> udp_offset (frame s) + 2 + 2 \<le> 34 \<and>
         Lookup (udp_dport (frame s)) \<in> set (run_events host s) \<and>
         fst (xdp_filter_prog host s) =
           Inr (if port_filter s (udp_dport (frame s)) = None \<or>
                   port_filter s (udp_dport (frame s)) = Some 0 \<or>
                   xsks_map s (rx_queue_index s) = None
                then XDP_PASS else XDP_REDIRECT)"
proof -
  from assms have udp: "udp_frame (frame s)"
    by (simp add: udp_frame_def)
  from assms(2) have inside: "14 \<le> udp_offset (frame s) + 2" "udp_offset (frame s) + 2 + 2 \<le> 34"
    by (simp_all add: udp_offset_def)
  show ?thesis
  proof (cases "port_filter s (udp_dport (frame s)) = None \<or>
      port_filter s (udp_dport (frame s)) = Some 0")
    case True
    note run = run_udp_pass [OF udp True, of host]
    from True inside show ?thesis
      by (auto simp add: run_events_logged [OF run] run)
  next
    case False
    then obtain v where v: "port_filter s (udp_dport (frame s)) = Some v" "v \<noteq> 0"
      by auto
    note run = run_udp_redirect [OF udp v, of host]
    from v inside show ?thesis
      by (auto simp add: run_events_logged [OF run] run split: option.splits)
  qed
qed

text \<open>
  At the frame with \<open>ihl = 0\<close>: the bytes loaded as destination port are the IPv4
  total-length field at offsets 16 and 17, they read 8001, and the frame is redirected
  although its UDP destination port is 0.
\<close>

theorem short_ihl_is_classified_witness:
  "ipv4_udp_headers (frame (redirect_8001 frame_ihl0)) \<and>
   ip_ihl (frame (redirect_8001 frame_ihl0)) = 0 \<and>
   udp_offset (frame (redirect_8001 frame_ihl0)) + 8 \<le> length (frame (redirect_8001 frame_ihl0)) \<and>
   Load 16 2 \<in> set (run_events LittleEndian (redirect_8001 frame_ihl0)) \<and>
   Lookup 8001 \<in> set (run_events LittleEndian (redirect_8001 frame_ihl0)) \<and>
   fst (xdp_filter_prog LittleEndian (redirect_8001 frame_ihl0)) = Inr XDP_REDIRECT \<and>
   be16 (frame_ihl0 ! 36) (frame_ihl0 ! 37) = 0"
  using short_ihl_is_classified [of "redirect_8001 frame_ihl0" LittleEndian]
  by (simp add: wire_defs example_defs)

text \<open>
  C10 as stated fails on a frame that ends inside the fixed IPv4 header. The first 30
  bytes of the \<open>ihl = 0\<close> frame have EtherType IPv4, protocol 17 and
  \<open>14 + 0 * 4 + 8 = 22 \<le> 30\<close>, but the check \<^verbatim>\<open>(void *)(ip + 1) > data_end\<close>
  (\<open>34 > 30\<close>) returns \<^verbatim>\<open>XDP_PASS\<close> first: the only load is the EtherType, the
  header-length byte and the "port" bytes are never read and no table is looked up.
\<close>

theorem short_ihl_in_cut_ip_header_counterexample:
  "14 \<le> length (frame (redirect_8001 (take 30 frame_ihl0))) \<and>
   ether_type (frame (redirect_8001 (take 30 frame_ihl0))) = 0x0800 \<and>
   ip_protocol (frame (redirect_8001 (take 30 frame_ihl0))) = 17 \<and>
   ip_ihl (frame (redirect_8001 (take 30 frame_ihl0))) < 5 \<and>
   udp_offset (frame (redirect_8001 (take 30 frame_ihl0))) + 8
     \<le> length (frame (redirect_8001 (take 30 frame_ihl0))) \<and>
   run_events LittleEndian (redirect_8001 (take 30 frame_ihl0)) = [Load 12 2] \<and>
   run_events BigEndian (redirect_8001 (take 30 frame_ihl0)) = [Load 12 2] \<and>
   Load 16 2 \<notin> set (run_events LittleEndian (redirect_8001 (take 30 frame_ihl0))) \<and>
   Lookup 8001 \<notin> set (run_events LittleEndian (redirect_8001 (take 30 frame_ihl0))) \<and>
   fst (xdp_filter_prog LittleEndian (redirect_8001 (take 30 frame_ihl0))) = Inr XDP_PASS"
  by (simp add: run_events_def prog_defs wire_defs example_defs)

end
